theory Spec2Isabelle
  imports Main "HOL-Library.Word"
begin

section \<open>The mixer interface of mixer.c\<close>

text \<open>
  mixer.c holds the wrappers of the GstMixer interface: seven functions that look up
  the class of a mixer and call the virtual function stored there when the pointer is
  not NULL, and four functions that emit a signal on the mixer and then on the track
  or options object.

  The embedding is sequential and passes the state of the program explicitly. A C call
  either returns or ends the process; the second case is a \<open>fault\<close>, the left summand
  of every result.
\<close>

subsection \<open>Values\<close>

text \<open>A \<open>gint\<close> is a C \<open>int\<close>: 32 bits, two's complement, read with \<open>sint\<close>.\<close>

type_synonym gint = "32 word"

text \<open>A pointer that the code may set to NULL, such as the \<open>const gchar *\<close> that
  \<open>gst_mixer_get_option\<close> returns.\<close>

datatype 'a ptr = NULL | Ptr 'a

text \<open>
  A \<open>const GList *\<close>: NULL, or the address of a node with its data and the pointer to
  the next node. GLib has no list header: the NULL pointer is the list of no elements,
  and \<open>g_list_elems\<close> reads the elements a pointer stands for.
\<close>

datatype 'a GList = GList_NULL | GList 'a "'a GList"

fun g_list_elems :: "'a GList \<Rightarrow> 'a list" where
  "g_list_elems GList_NULL = []"
| "g_list_elems (GList d n) = d # g_list_elems n"

text \<open>
  The two ways a call can fail to return: a store outside the array it was given
  (undefined behaviour in C), and a callback that ends the process.
\<close>

datatype fault = OutOfBounds | Aborted

text \<open>
  Modelled from the spec: the declarations of GstMixerTrack and GstMixerOptions
  (mixertrack.h and mixeroptions.h are not among the sources). Section 3 of the
  specification gives a track an identity, a label, a channel count and a set of
  flags, and an options group an identity, a label and its current value. mixer.c
  reads \<open>track->num_channels\<close> (a \<open>gint\<close>) and nothing else of either.
\<close>

record GstMixerTrack =
  track_handle :: nat
  label :: string
  flags :: "32 word"
  num_channels :: gint

record GstMixerOptions =
  options_handle :: nat
  options_label :: string
  options_value :: string

text \<open>A \<open>GstMixer *\<close> is an opaque handle: mixer.c never looks inside it.\<close>

type_synonym GstMixer = nat

datatype GstMixerType = GST_MIXER_HARDWARE | GST_MIXER_SOFTWARE

subsection \<open>The class: a table of function pointers\<close>

text \<open>
  Each virtual function is a pointer that may be NULL, so each field is an option.
  An implementation is any function of its arguments and of the state \<open>'s\<close> of the
  program; it may fail to return. An array argument \<open>gint *volumes\<close> is the list of the
  integers it points to; \<open>get_volume\<close> stores into it, so its implementation returns
  the array as well.
\<close>

record 's GstMixerClass =
  mixer_type :: GstMixerType
  list_tracks :: "(GstMixer \<Rightarrow> 's \<Rightarrow> fault + (GstMixerTrack GList \<times> 's)) option"
  set_volume :: "(GstMixer \<Rightarrow> GstMixerTrack \<Rightarrow> gint list \<Rightarrow> 's \<Rightarrow> fault + 's) option"
  get_volume ::
    "(GstMixer \<Rightarrow> GstMixerTrack \<Rightarrow> gint list \<Rightarrow> 's \<Rightarrow> fault + (gint list \<times> 's)) option"
  set_mute :: "(GstMixer \<Rightarrow> GstMixerTrack \<Rightarrow> bool \<Rightarrow> 's \<Rightarrow> fault + 's) option"
  set_record :: "(GstMixer \<Rightarrow> GstMixerTrack \<Rightarrow> bool \<Rightarrow> 's \<Rightarrow> fault + 's) option"
  set_option :: "(GstMixer \<Rightarrow> GstMixerOptions \<Rightarrow> string \<Rightarrow> 's \<Rightarrow> fault + 's) option"
  get_option :: "(GstMixer \<Rightarrow> GstMixerOptions \<Rightarrow> 's \<Rightarrow> fault + (string ptr \<times> 's)) option"

text \<open>
  \<open>gst_mixer_class_init\<close>, the part that fills the class: the mixer type, and NULL in
  all seven slots. (The part that registers the four signals is \<open>gst_mixer_signals\<close>
  below.)
\<close>

definition gst_mixer_class_init :: "'s GstMixerClass \<Rightarrow> 's GstMixerClass" where
  "gst_mixer_class_init klass =
     klass\<lparr>mixer_type := GST_MIXER_SOFTWARE,
           list_tracks := None,
           set_volume := None,
           get_volume := None,
           set_mute := None,
           set_record := None,
           set_option := None,
           get_option := None\<rparr>"

subsection \<open>The seven wrappers\<close>

text \<open>
  The macro \<open>GST_MIXER_GET_CLASS\<close> is not among the sources; every wrapper takes it as
  its first argument \<open>GET_CLASS\<close>, a function from mixers to classes.
\<close>

definition gst_mixer_list_tracks ::
  "(GstMixer \<Rightarrow> 's GstMixerClass) \<Rightarrow> GstMixer \<Rightarrow> 's \<Rightarrow> fault + (GstMixerTrack GList \<times> 's)"
where
  "gst_mixer_list_tracks GET_CLASS mixer s =
     (let klass = GET_CLASS mixer in
      case list_tracks klass of
        Some f \<Rightarrow> f mixer s
      | None \<Rightarrow> Inr (GList_NULL, s))"

definition gst_mixer_set_volume ::
  "(GstMixer \<Rightarrow> 's GstMixerClass) \<Rightarrow> GstMixer \<Rightarrow> GstMixerTrack \<Rightarrow> gint list \<Rightarrow> 's \<Rightarrow> fault + 's"
where
  "gst_mixer_set_volume GET_CLASS mixer track volumes s =
     (let klass = GET_CLASS mixer in
      case set_volume klass of
        Some f \<Rightarrow> f mixer track volumes s
      | None \<Rightarrow> Inr s)"

text \<open>
  The loop \<open>for (i = 0; i < track->num_channels; i++) volumes[i] = 0;\<close> of
  \<open>gst_mixer_get_volume\<close>, from the value \<open>i\<close> of the counter on. The comparison is the
  signed one of C; a store at an index outside the array is a fault.
\<close>

function gst_mixer_get_volume_loop :: "gint \<Rightarrow> gint \<Rightarrow> gint list \<Rightarrow> fault + gint list" where
  "gst_mixer_get_volume_loop i n volumes =
     (if i <s n then
        (if 0 \<le> sint i \<and> nat (sint i) < length volumes
         then gst_mixer_get_volume_loop (i + 1) n (volumes[nat (sint i) := 0])
         else Inl OutOfBounds)
      else Inr volumes)"
  by pat_completeness auto
termination
proof (relation "measure (\<lambda>(i, n, volumes). nat (sint n - sint i))")
  show "wf (measure (\<lambda>(i :: gint, n :: gint, volumes :: gint list). nat (sint n - sint i)))"
    by simp
next
  fix i n :: gint and volumes :: "gint list"
  assume less: "i <s n"
  have lo: "- (2 ^ 31) \<le> sint i"
    using sint_ge [of i] by simp
  have hi: "sint n < 2 ^ 31"
    using sint_lt [of n] by simp
  from less have lt: "sint i < sint n"
    by (simp add: word_sless_alt)
  with lo hi have r: "- (2 ^ 31) \<le> sint i + 1" "sint i + 1 < 2 ^ 31"
    by simp_all
  have "sint (i + 1) = signed_take_bit 31 (sint i + 1)"
    by (simp add: sint_word_ariths)
  also have "\<dots> = sint i + 1"
    using r by (simp add: signed_take_bit_int_eq_self)
  finally have "sint (i + 1) = sint i + 1" .
  with lt show "((i + 1, n, volumes[nat (sint i) := 0]), (i, n, volumes))
      \<in> measure (\<lambda>(i, n, volumes). nat (sint n - sint i))"
    by simp
qed

definition gst_mixer_get_volume ::
  "(GstMixer \<Rightarrow> 's GstMixerClass) \<Rightarrow> GstMixer \<Rightarrow> GstMixerTrack \<Rightarrow> gint list \<Rightarrow> 's
     \<Rightarrow> fault + (gint list \<times> 's)"
where
  "gst_mixer_get_volume GET_CLASS mixer track volumes s =
     (let klass = GET_CLASS mixer in
      case get_volume klass of
        Some f \<Rightarrow> f mixer track volumes s
      | None \<Rightarrow>
          (case gst_mixer_get_volume_loop 0 (num_channels track) volumes of
             Inl e \<Rightarrow> Inl e
           | Inr volumes' \<Rightarrow> Inr (volumes', s)))"

definition gst_mixer_set_mute ::
  "(GstMixer \<Rightarrow> 's GstMixerClass) \<Rightarrow> GstMixer \<Rightarrow> GstMixerTrack \<Rightarrow> bool \<Rightarrow> 's \<Rightarrow> fault + 's"
where
  "gst_mixer_set_mute GET_CLASS mixer track mute s =
     (let klass = GET_CLASS mixer in
      case set_mute klass of
        Some f \<Rightarrow> f mixer track mute s
      | None \<Rightarrow> Inr s)"

definition gst_mixer_set_record ::
  "(GstMixer \<Rightarrow> 's GstMixerClass) \<Rightarrow> GstMixer \<Rightarrow> GstMixerTrack \<Rightarrow> bool \<Rightarrow> 's \<Rightarrow> fault + 's"
where
  "gst_mixer_set_record GET_CLASS mixer track record s =
     (let klass = GET_CLASS mixer in
      case set_record klass of
        Some f \<Rightarrow> f mixer track record s
      | None \<Rightarrow> Inr s)"

definition gst_mixer_set_option ::
  "(GstMixer \<Rightarrow> 's GstMixerClass) \<Rightarrow> GstMixer \<Rightarrow> GstMixerOptions \<Rightarrow> string \<Rightarrow> 's \<Rightarrow> fault + 's"
where
  "gst_mixer_set_option GET_CLASS mixer opts val s =
     (let klass = GET_CLASS mixer in
      case set_option klass of
        Some f \<Rightarrow> f mixer opts val s
      | None \<Rightarrow> Inr s)"

definition gst_mixer_get_option ::
  "(GstMixer \<Rightarrow> 's GstMixerClass) \<Rightarrow> GstMixer \<Rightarrow> GstMixerOptions \<Rightarrow> 's
     \<Rightarrow> fault + (string ptr \<times> 's)"
where
  "gst_mixer_get_option GET_CLASS mixer opts s =
     (let klass = GET_CLASS mixer in
      case get_option klass of
        Some f \<Rightarrow> f mixer opts s
      | None \<Rightarrow> Inr (NULL, s))"

subsection \<open>Signals\<close>

text \<open>
  The objects a signal is emitted on: \<open>G_OBJECT (mixer)\<close>, \<open>G_OBJECT (track)\<close> and
  \<open>G_OBJECT (opts)\<close>.
\<close>

datatype GObject = MixerObject GstMixer | TrackObject nat | OptionsObject nat

definition G_OBJECT_track :: "GstMixerTrack \<Rightarrow> GObject" where
  "G_OBJECT_track track = TrackObject (track_handle track)"

definition G_OBJECT_opts :: "GstMixerOptions \<Rightarrow> GObject" where
  "G_OBJECT_opts opts = OptionsObject (options_handle opts)"

text \<open>
  The arguments of an emission, by the types the signals are registered with:
  \<open>GST_TYPE_MIXER_TRACK\<close>, \<open>GST_TYPE_MIXER_OPTIONS\<close>, \<open>G_TYPE_BOOLEAN\<close>,
  \<open>G_TYPE_POINTER\<close> (the volume array) and \<open>G_TYPE_STRING\<close>.
\<close>

datatype GValue =
  TrackValue GstMixerTrack
| OptionsValue GstMixerOptions
| BooleanValue bool
| PointerValue "gint list"
| StringValue string

text \<open>
  The index of a signal in the table \<open>gst_mixer_signals\<close>, and the table as
  \<open>gst_mixer_class_init\<close> fills it: a signal of the mixer type is known by the name
  \<open>g_signal_new\<close> registered it under.
\<close>

datatype signal_index =
  SIGNAL_MUTE_TOGGLED | SIGNAL_RECORD_TOGGLED | SIGNAL_VOLUME_CHANGED | SIGNAL_OPTION_CHANGED

fun gst_mixer_signals :: "signal_index \<Rightarrow> string" where
  "gst_mixer_signals SIGNAL_RECORD_TOGGLED = ''record-toggled''"
| "gst_mixer_signals SIGNAL_MUTE_TOGGLED = ''mute-toggled''"
| "gst_mixer_signals SIGNAL_VOLUME_CHANGED = ''volume-changed''"
| "gst_mixer_signals SIGNAL_OPTION_CHANGED = ''option-changed''"

text \<open>
  An observer is a handler connected to a signal of an object: a C callback of type
  void, which gets the object and the arguments and works on the state \<open>'u\<close> of the
  application. A callback returns, or it ends the process (\<open>Inl\<close>): C has no exception
  that a caller could catch.
\<close>

record 'u handler =
  handler_id :: nat
  callback :: "GObject \<Rightarrow> GValue list \<Rightarrow> 'u \<Rightarrow> fault + 'u"

text \<open>
  What an observer of the whole program sees: every emission, and every call of a
  handler. The state of the program is this trace and the state of the application;
  handlers work on the second only.
\<close>

datatype event =
  Emission GObject string "GValue list"
| Delivery nat GObject string "GValue list"

record 'u world =
  trace :: "event list"
  app :: 'u

text \<open>
  Modelled from the spec: \<open>g_signal_emit\<close> and \<open>g_signal_emit_by_name\<close> belong to
  GLib and are not among the sources. Section 6 of the specification gives the
  contract: deliver "synchronously to all live subscriptions matching kind+scope, in
  registration order". The handlers connected to a signal of an object are the
  parameter \<open>connected\<close>, in the order GLib calls them; an emission calls them one
  after the other from inside the emitting call. A handler that does not return ends
  the emission with it, as a C call does.
\<close>

type_synonym 'u connections = "GObject \<Rightarrow> string \<Rightarrow> 'u handler list"

fun run_handlers ::
  "'u handler list \<Rightarrow> GObject \<Rightarrow> string \<Rightarrow> GValue list \<Rightarrow> 'u world \<Rightarrow> fault + 'u world"
where
  "run_handlers [] instance signal args w = Inr w"
| "run_handlers (h # hs) instance signal args w =
     (case callback h instance args (app w) of
        Inl e \<Rightarrow> Inl e
      | Inr u \<Rightarrow>
          run_handlers hs instance signal args
            \<lparr>trace = trace w @ [Delivery (handler_id h) instance signal args], app = u\<rparr>)"

definition g_signal_emit ::
  "'u connections \<Rightarrow> GObject \<Rightarrow> string \<Rightarrow> nat \<Rightarrow> GValue list \<Rightarrow> 'u world \<Rightarrow> fault + 'u world"
where
  "g_signal_emit connected instance signal_id detail args w =
     run_handlers (connected instance signal_id) instance signal_id args
       (w\<lparr>trace := trace w @ [Emission instance signal_id args]\<rparr>)"

definition g_signal_emit_by_name ::
  "'u connections \<Rightarrow> GObject \<Rightarrow> string \<Rightarrow> GValue list \<Rightarrow> 'u world \<Rightarrow> fault + 'u world"
where
  "g_signal_emit_by_name connected instance detailed_signal args w =
     g_signal_emit connected instance detailed_signal 0 args w"

subsection \<open>The four notifications\<close>

text \<open>Each emits on the mixer and then, when that call has returned, on the entity.\<close>

definition gst_mixer_mute_toggled ::
  "'u connections \<Rightarrow> GstMixer \<Rightarrow> GstMixerTrack \<Rightarrow> bool \<Rightarrow> 'u world \<Rightarrow> fault + 'u world"
where
  "gst_mixer_mute_toggled connected mixer track mute w =
     (case g_signal_emit connected (MixerObject mixer)
             (gst_mixer_signals SIGNAL_MUTE_TOGGLED) 0 [TrackValue track, BooleanValue mute] w of
        Inl e \<Rightarrow> Inl e
      | Inr w' \<Rightarrow>
          g_signal_emit_by_name connected (G_OBJECT_track track) ''mute_toggled''
            [BooleanValue mute] w')"

definition gst_mixer_record_toggled ::
  "'u connections \<Rightarrow> GstMixer \<Rightarrow> GstMixerTrack \<Rightarrow> bool \<Rightarrow> 'u world \<Rightarrow> fault + 'u world"
where
  "gst_mixer_record_toggled connected mixer track record w =
     (case g_signal_emit connected (MixerObject mixer)
             (gst_mixer_signals SIGNAL_RECORD_TOGGLED) 0 [TrackValue track, BooleanValue record] w of
        Inl e \<Rightarrow> Inl e
      | Inr w' \<Rightarrow>
          g_signal_emit_by_name connected (G_OBJECT_track track) ''record_toggled''
            [BooleanValue record] w')"

definition gst_mixer_volume_changed ::
  "'u connections \<Rightarrow> GstMixer \<Rightarrow> GstMixerTrack \<Rightarrow> gint list \<Rightarrow> 'u world \<Rightarrow> fault + 'u world"
where
  "gst_mixer_volume_changed connected mixer track volumes w =
     (case g_signal_emit connected (MixerObject mixer)
             (gst_mixer_signals SIGNAL_VOLUME_CHANGED) 0 [TrackValue track, PointerValue volumes] w of
        Inl e \<Rightarrow> Inl e
      | Inr w' \<Rightarrow>
          g_signal_emit_by_name connected (G_OBJECT_track track) ''volume_changed''
            [PointerValue volumes] w')"

definition gst_mixer_option_changed ::
  "'u connections \<Rightarrow> GstMixer \<Rightarrow> GstMixerOptions \<Rightarrow> string \<Rightarrow> 'u world \<Rightarrow> fault + 'u world"
where
  "gst_mixer_option_changed connected mixer opts val w =
     (case g_signal_emit connected (MixerObject mixer)
             (gst_mixer_signals SIGNAL_OPTION_CHANGED) 0 [OptionsValue opts, StringValue val] w of
        Inl e \<Rightarrow> Inl e
      | Inr w' \<Rightarrow>
          g_signal_emit_by_name connected (G_OBJECT_opts opts) ''value_changed''
            [StringValue val] w')"

subsection \<open>Notions the properties are stated with\<close>

text \<open>A device that implements none of the seven capabilities: every slot is NULL.\<close>

definition implements_nothing :: "'s GstMixerClass \<Rightarrow> bool" where
  "implements_nothing klass \<longleftrightarrow>
     list_tracks klass = None \<and> set_volume klass = None \<and> get_volume klass = None \<and>
     set_mute klass = None \<and> set_record klass = None \<and> set_option klass = None \<and>
     get_option klass = None"

text \<open>A caller that makes a sequence of set calls on one mixer, one after the other.\<close>

datatype set_call =
  Set_volume GstMixerTrack "gint list"
| Set_mute GstMixerTrack bool
| Set_record GstMixerTrack bool
| Set_option GstMixerOptions string

fun client_call ::
  "(GstMixer \<Rightarrow> 's GstMixerClass) \<Rightarrow> GstMixer \<Rightarrow> set_call \<Rightarrow> 's \<Rightarrow> fault + 's"
where
  "client_call GET_CLASS mixer (Set_volume track volumes) s =
     gst_mixer_set_volume GET_CLASS mixer track volumes s"
| "client_call GET_CLASS mixer (Set_mute track mute) s =
     gst_mixer_set_mute GET_CLASS mixer track mute s"
| "client_call GET_CLASS mixer (Set_record track record) s =
     gst_mixer_set_record GET_CLASS mixer track record s"
| "client_call GET_CLASS mixer (Set_option opts val) s =
     gst_mixer_set_option GET_CLASS mixer opts val s"

fun client_calls ::
  "(GstMixer \<Rightarrow> 's GstMixerClass) \<Rightarrow> GstMixer \<Rightarrow> set_call list \<Rightarrow> 's \<Rightarrow> fault + 's"
where
  "client_calls GET_CLASS mixer [] s = Inr s"
| "client_calls GET_CLASS mixer (c # cs) s =
     (case client_call GET_CLASS mixer c s of
        Inl e \<Rightarrow> Inl e
      | Inr s' \<Rightarrow> client_calls GET_CLASS mixer cs s')"




subsection \<open>An example device and its observers\<close>

text \<open>
  The device of the scenario in section 8 of the specification: one track "Master" of
  two channels, volumes kept in memory and initialised to 50 and 50. Every set
  operation stores the value and then calls the notification, as section 4.2 asks of
  an implementation.
\<close>

record example_state =
  stored_volumes :: "gint list"
  muted :: bool
  recording :: bool
  selected :: string
  notified :: nat

definition master :: GstMixerTrack where
  "master = \<lparr>track_handle = 1, label = ''Master'', flags = 0, num_channels = 2\<rparr>"

definition source_select :: GstMixerOptions where
  "source_select = \<lparr>options_handle = 2, options_label = ''Source'', options_value = ''line''\<rparr>"

definition example_class :: "example_state connections \<Rightarrow> example_state world GstMixerClass" where
  "example_class connected =
     \<lparr>mixer_type = GST_MIXER_SOFTWARE,
      list_tracks = Some (\<lambda>mixer w. Inr (GList master GList_NULL, w)),
      set_volume = Some (\<lambda>mixer track volumes w.
        gst_mixer_volume_changed connected mixer track volumes
          (w\<lparr>app := (app w)\<lparr>stored_volumes := volumes\<rparr>\<rparr>)),
      get_volume = Some (\<lambda>mixer track volumes w. Inr (stored_volumes (app w), w)),
      set_mute = Some (\<lambda>mixer track mute w.
        gst_mixer_mute_toggled connected mixer track mute (w\<lparr>app := (app w)\<lparr>muted := mute\<rparr>\<rparr>)),
      set_record = Some (\<lambda>mixer track record w.
        gst_mixer_record_toggled connected mixer track record
          (w\<lparr>app := (app w)\<lparr>recording := record\<rparr>\<rparr>)),
      set_option = Some (\<lambda>mixer opts val w.
        gst_mixer_option_changed connected mixer opts val (w\<lparr>app := (app w)\<lparr>selected := val\<rparr>\<rparr>)),
      get_option = Some (\<lambda>mixer opts w. Inr (Ptr (selected (app w)), w))\<rparr>"

text \<open>The class of every mixer is the example class; and a device whose class
  \<open>gst_mixer_class_init\<close> has filled and nothing has overridden.\<close>

definition example_device ::
  "example_state connections \<Rightarrow> GstMixer \<Rightarrow> example_state world GstMixerClass"
where
  "example_device connected mixer = example_class connected"

definition bare_device :: "GstMixer \<Rightarrow> example_state world GstMixerClass" where
  "bare_device mixer = gst_mixer_class_init (example_class (\<lambda>instance signal. []))"

definition example_world :: "example_state world" where
  "example_world =
     \<lparr>trace = [],
      app = \<lparr>stored_volumes = [50, 50], muted = False, recording = False,
             selected = ''line'', notified = 0\<rparr>\<rparr>"

text \<open>An observer that counts what it is told, and one that ends the process.\<close>

definition counting_handler :: "nat \<Rightarrow> example_state handler" where
  "counting_handler n =
     \<lparr>handler_id = n, callback = (\<lambda>instance args u. Inr (u\<lparr>notified := Suc (notified u)\<rparr>))\<rparr>"

definition aborting_handler :: "nat \<Rightarrow> example_state handler" where
  "aborting_handler n = \<lparr>handler_id = n, callback = (\<lambda>instance args u. Inl Aborted)\<rparr>"

text \<open>Two observers of the mute signal of mixer 0, and one of the same signal of the
  track; in the second table the first observer of the mixer fails.\<close>

definition example_connected :: "example_state connections" where
  "example_connected instance signal =
     (if instance = MixerObject 0 \<and> signal = ''mute-toggled''
      then [counting_handler 1, counting_handler 2]
      else if instance = TrackObject 1 \<and> signal = ''mute_toggled''
      then [counting_handler 3]
      else [])"

definition failing_connected :: "example_state connections" where
  "failing_connected instance signal =
     (if instance = MixerObject 0 \<and> signal = ''mute-toggled''
      then [aborting_handler 1, counting_handler 2]
      else if instance = TrackObject 1 \<and> signal = ''mute_toggled''
      then [counting_handler 3]
      else [])"

section \<open>Properties\<close>

subsection \<open>The loop of the fallback of get_volume\<close>

text \<open>The equation of the loop is applied one step at a time.\<close>

declare gst_mixer_get_volume_loop.simps [simp del]

text \<open>The counter does not wrap: it is below a \<open>gint\<close> when it is incremented.\<close>

lemma gint_succ:
  fixes i n :: gint
  assumes "i <s n"
  shows "sint (i + 1) = sint i + 1"
proof -
  have lo: "- (2 ^ 31) \<le> sint i"
    using sint_ge [of i] by simp
  have hi: "sint n < 2 ^ 31"
    using sint_lt [of n] by simp
  from assms have "sint i < sint n"
    by (simp add: word_sless_alt)
  with lo hi have r: "- (2 ^ 31) \<le> sint i + 1" "sint i + 1 < 2 ^ 31"
    by simp_all
  have "sint (i + 1) = signed_take_bit 31 (sint i + 1)"
    by (simp add: sint_word_ariths)
  also have "\<dots> = sint i + 1"
    using r by (simp add: signed_take_bit_int_eq_self)
  finally show ?thesis .
qed

text \<open>
  With the counter inside the array and the bound not beyond its end, the loop returns:
  the array keeps its length, holds 0 from the counter up to the bound, and is as it
  was everywhere else.
\<close>

lemma loop_stores:
  "0 \<le> sint i \<Longrightarrow> sint n \<le> int (length vs) \<Longrightarrow>
   \<exists>vs'. gst_mixer_get_volume_loop i n vs = Inr vs' \<and> length vs' = length vs \<and>
     (\<forall>k<length vs. vs' ! k = (if sint i \<le> int k \<and> int k < sint n then 0 else vs ! k))"
proof (induction i n vs rule: gst_mixer_get_volume_loop.induct)
  case (1 i n vs)
  show ?case
  proof (cases "i <s n")
    case False
    then have "gst_mixer_get_volume_loop i n vs = Inr vs"
      by (subst gst_mixer_get_volume_loop.simps) simp
    moreover from False have "\<not> sint i < sint n"
      by (simp add: word_sless_alt)
    ultimately show ?thesis
      by auto
  next
    case True
    then have lt: "sint i < sint n"
      by (simp add: word_sless_alt)
    with "1.prems" have inside: "0 \<le> sint i \<and> nat (sint i) < length vs"
      by auto
    have succ: "sint (i + 1) = sint i + 1"
      using True by (rule gint_succ)
    have step: "gst_mixer_get_volume_loop i n vs =
        gst_mixer_get_volume_loop (i + 1) n (vs[nat (sint i) := 0])"
      using True inside by (subst gst_mixer_get_volume_loop.simps) simp
    have "0 \<le> sint (i + 1)" "sint n \<le> int (length (vs[nat (sint i) := 0]))"
      using "1.prems" succ by simp_all
    with "1.IH" [OF True inside] obtain vs' where
      r: "gst_mixer_get_volume_loop (i + 1) n (vs[nat (sint i) := 0]) = Inr vs'"
      and len: "length vs' = length vs"
      and el: "\<forall>k<length vs. vs' ! k =
          (if sint (i + 1) \<le> int k \<and> int k < sint n then 0 else vs[nat (sint i) := 0] ! k)"
      by auto
    have "\<forall>k<length vs. vs' ! k = (if sint i \<le> int k \<and> int k < sint n then 0 else vs ! k)"
    proof (intro allI impI)
      fix k assume k: "k < length vs"
      show "vs' ! k = (if sint i \<le> int k \<and> int k < sint n then 0 else vs ! k)"
      proof (cases "k = nat (sint i)")
        case True
        with el k succ lt inside show ?thesis by simp
      next
        case False
        with el k succ inside show ?thesis by (auto simp: nth_list_update)
      qed
    qed
    with step r len show ?thesis
      by simp
  qed
qed

text \<open>A bound of zero or less: the body never runs.\<close>

lemma loop_nothing: "sint n \<le> 0 \<Longrightarrow> gst_mixer_get_volume_loop 0 n vs = Inr vs"
  by (subst gst_mixer_get_volume_loop.simps) (simp add: word_sless_alt)

text \<open>A bound beyond the end of the array: the loop reaches the end and stores past it.\<close>

lemma loop_overrun:
  "0 \<le> sint i \<Longrightarrow> sint i \<le> int (length vs) \<Longrightarrow> int (length vs) < sint n \<Longrightarrow>
   gst_mixer_get_volume_loop i n vs = Inl OutOfBounds"
proof (induction i n vs rule: gst_mixer_get_volume_loop.induct)
  case (1 i n vs)
  from "1.prems" have True: "i <s n"
    by (simp add: word_sless_alt)
  have succ: "sint (i + 1) = sint i + 1"
    using True by (rule gint_succ)
  show ?case
  proof (cases "nat (sint i) < length vs")
    case False
    with True show ?thesis
      by (subst gst_mixer_get_volume_loop.simps) simp
  next
    case inside: True
    with "1.prems" have "gst_mixer_get_volume_loop i n vs =
        gst_mixer_get_volume_loop (i + 1) n (vs[nat (sint i) := 0])"
      using True by (subst gst_mixer_get_volume_loop.simps) simp
    also have "\<dots> = Inl OutOfBounds"
      using "1.IH" [OF True] "1.prems" inside succ by simp
    finally show ?thesis .
  qed
qed


subsection \<open>Unimplemented capabilities\<close>

lemma class_init_implements_nothing: "implements_nothing (gst_mixer_class_init klass)"
  by (simp add: implements_nothing_def gst_mixer_class_init_def)

text \<open>
  C1. A device without a \<open>get_volume\<close> implementation, any track, and an array that
  has room for the channels of the track (the caller's side of the contract: "a
  pre-allocated array of integers (of size track->num_channels)"). The call returns
  with the state as it was; the array has the length it had and holds 0 at every index
  below \<open>num_channels\<close>; an array of exactly \<open>num_channels\<close> elements holds exactly that
  many zeros.
\<close>

theorem get_volume_unimplemented_fills_zeros:
  assumes "get_volume (GET_CLASS mixer) = None"
    and "sint (num_channels track) \<le> int (length volumes)"
  shows "\<exists>volumes'. gst_mixer_get_volume GET_CLASS mixer track volumes s = Inr (volumes', s) \<and>
     length volumes' = length volumes \<and>
     (\<forall>k<length volumes'. int k < sint (num_channels track) \<longrightarrow> volumes' ! k = 0) \<and>
     (int (length volumes) = sint (num_channels track) \<longrightarrow>
        volumes' = replicate (length volumes) 0)"
proof -
  from loop_stores [of 0 "num_channels track" volumes] assms(2)
  obtain vs' where
    r: "gst_mixer_get_volume_loop 0 (num_channels track) volumes = Inr vs'"
    and len: "length vs' = length volumes"
    and el: "\<forall>k<length volumes. vs' ! k =
        (if sint (0 :: gint) \<le> int k \<and> int k < sint (num_channels track) then 0 else volumes ! k)"
    by auto
  have zeros: "\<forall>k<length vs'. int k < sint (num_channels track) \<longrightarrow> vs' ! k = 0"
    using el len by simp
  have full: "int (length volumes) = sint (num_channels track) \<longrightarrow>
      vs' = replicate (length volumes) 0"
  proof
    assume "int (length volumes) = sint (num_channels track)"
    with zeros len show "vs' = replicate (length volumes) 0"
      by (intro nth_equalityI) simp_all
  qed
  from r have "gst_mixer_get_volume GET_CLASS mixer track volumes s = Inr (vs', s)"
    using assms(1) by (simp add: gst_mixer_get_volume_def)
  with len zeros full show ?thesis
    by blast
qed

theorem get_volume_unimplemented_fills_zeros_witness:
  "get_volume (bare_device 0) = None \<and>
   sint (num_channels master) \<le> int (length [50, 50 :: gint]) \<and>
   gst_mixer_get_volume bare_device
     0 master [50, 50] example_world = Inr ([0, 0], example_world)"
proof -
  have h1: "get_volume (bare_device 0) = None"
    by (simp add: bare_device_def gst_mixer_class_init_def)
  have h2: "sint (num_channels master) \<le> int (length [50, 50 :: gint])"
    by (simp add: master_def)
  have h3: "int (length [50, 50 :: gint]) = sint (num_channels master)"
    by (simp add: master_def)
  from get_volume_unimplemented_fills_zeros [where GET_CLASS = bare_device and mixer = 0
      and track = master and volumes = "[50, 50]" and s = example_world, OF h1 h2] h3
  have "gst_mixer_get_volume bare_device
     0 master [50, 50] example_world = Inr (replicate (length [50, 50 :: gint]) 0, example_world)"
    by auto
  with h1 h2 show ?thesis
    by (simp add: numeral_2_eq_2)
qed

text \<open>
  C9. The fallback of \<open>get_volume\<close> stores only below \<open>num_channels\<close>. With a channel
  count of zero or less the call returns with the array untouched, whatever its length.
  With a channel count the array has room for, every element from index
  \<open>num_channels\<close> on is what it was, and so are the length and the state.
\<close>

theorem get_volume_unimplemented_stays_in_range:
  assumes "get_volume (GET_CLASS mixer) = None"
  shows "(sint (num_channels track) \<le> 0 \<longrightarrow>
       gst_mixer_get_volume GET_CLASS mixer track volumes s = Inr (volumes, s)) \<and>
     (sint (num_channels track) \<le> int (length volumes) \<longrightarrow>
       (\<exists>volumes'. gst_mixer_get_volume GET_CLASS mixer track volumes s = Inr (volumes', s) \<and>
          length volumes' = length volumes \<and>
          (\<forall>k<length volumes. sint (num_channels track) \<le> int k \<longrightarrow>
             volumes' ! k = volumes ! k)))"
proof (intro conjI impI)
  assume "sint (num_channels track) \<le> 0"
  then show "gst_mixer_get_volume GET_CLASS mixer track volumes s = Inr (volumes, s)"
    using assms by (simp add: gst_mixer_get_volume_def loop_nothing)
next
  assume "sint (num_channels track) \<le> int (length volumes)"
  with loop_stores [of 0 "num_channels track" volumes]
  obtain vs' where
    r: "gst_mixer_get_volume_loop 0 (num_channels track) volumes = Inr vs'"
    and len: "length vs' = length volumes"
    and el: "\<forall>k<length volumes. vs' ! k =
        (if sint (0 :: gint) \<le> int k \<and> int k < sint (num_channels track) then 0 else volumes ! k)"
    by auto
  from el have "\<forall>k<length volumes. sint (num_channels track) \<le> int k \<longrightarrow> vs' ! k = volumes ! k"
    by simp
  moreover from r have "gst_mixer_get_volume GET_CLASS mixer track volumes s = Inr (vs', s)"
    using assms by (simp add: gst_mixer_get_volume_def)
  ultimately show "\<exists>volumes'. gst_mixer_get_volume GET_CLASS mixer track volumes s = Inr (volumes', s) \<and>
      length volumes' = length volumes \<and>
      (\<forall>k<length volumes. sint (num_channels track) \<le> int k \<longrightarrow> volumes' ! k = volumes ! k)"
    using len by blast
qed

theorem get_volume_unimplemented_stays_in_range_witness:
  "get_volume (bare_device 0) = None \<and>
   sint (num_channels (master\<lparr>num_channels := - 1\<rparr>)) \<le> 0 \<and>
   gst_mixer_get_volume bare_device
     0 (master\<lparr>num_channels := - 1\<rparr>) [50, 50] example_world = Inr ([50, 50], example_world) \<and>
   sint (num_channels master) \<le> int (length [50, 50, 7 :: gint]) \<and>
   (\<exists>volumes'. gst_mixer_get_volume bare_device
       0 master [50, 50, 7] example_world = Inr (volumes', example_world) \<and>
     length volumes' = 3 \<and> volumes' ! 2 = 7)"
proof -
  have h: "get_volume (bare_device 0) = None"
    by (simp add: bare_device_def gst_mixer_class_init_def)
  have n: "sint (num_channels (master\<lparr>num_channels := - 1\<rparr>)) \<le> 0"
    by simp
  have p: "sint (num_channels master) \<le> int (length [50, 50, 7 :: gint])"
    by (simp add: master_def)
  have two: "sint (num_channels master) = 2"
    by (simp add: master_def)
  from get_volume_unimplemented_stays_in_range [where GET_CLASS = bare_device and mixer = 0
      and track = "master\<lparr>num_channels := - 1\<rparr>" and volumes = "[50, 50]" and s = example_world, OF h] n
  have a: "gst_mixer_get_volume bare_device
     0 (master\<lparr>num_channels := - 1\<rparr>) [50, 50] example_world = Inr ([50, 50], example_world)"
    by blast
  from get_volume_unimplemented_stays_in_range [where GET_CLASS = bare_device and mixer = 0
      and track = master and volumes = "[50, 50, 7]" and s = example_world, OF h] p
  obtain volumes' where
    b: "gst_mixer_get_volume bare_device
       0 master [50, 50, 7] example_world = Inr (volumes', example_world)"
    and len: "length volumes' = length [50, 50, 7 :: gint]"
    and el: "\<forall>k<length [50, 50, 7 :: gint]. sint (num_channels master) \<le> int k \<longrightarrow>
        volumes' ! k = [50, 50, 7 :: gint] ! k"
    by blast
  from el two have "volumes' ! 2 = 7"
    by simp
  with h n p a b len show ?thesis
    by simp
qed

lemma bare_device_nothing: "implements_nothing (bare_device mixer)"
  by (simp add: bare_device_def class_init_implements_nothing)

text \<open>
  C2. A device without a \<open>list_tracks\<close> implementation: the call returns, with the
  state as it was, the NULL pointer. Read as a GList that is the sequence of no tracks,
  and it is the only pointer that stands for it: the result type has no value for
  "absent" beside the empty list.
\<close>

theorem list_tracks_unimplemented_is_empty:
  assumes "list_tracks (GET_CLASS mixer) = None"
  shows "\<exists>tracks. gst_mixer_list_tracks GET_CLASS mixer s = Inr (tracks, s) \<and>
     g_list_elems tracks = [] \<and>
     (\<forall>l. g_list_elems l = ([] :: GstMixerTrack list) \<longrightarrow> l = tracks)"
proof -
  have "gst_mixer_list_tracks GET_CLASS mixer s = Inr (GList_NULL, s)"
    using assms by (simp add: gst_mixer_list_tracks_def)
  moreover have "g_list_elems l = [] \<longrightarrow> l = GList_NULL" for l :: "GstMixerTrack GList"
    by (cases l) simp_all
  ultimately show ?thesis
    by simp
qed

theorem list_tracks_unimplemented_is_empty_witness:
  "list_tracks (bare_device 0) = None \<and>
   gst_mixer_list_tracks bare_device 0 example_world = Inr (GList_NULL, example_world) \<and>
   g_list_elems (GList_NULL :: GstMixerTrack GList) = []"
proof -
  have h: "list_tracks (bare_device 0) = None"
    using bare_device_nothing [of 0] by (simp add: implements_nothing_def)
  from list_tracks_unimplemented_is_empty [where GET_CLASS = bare_device and mixer = 0
      and s = example_world, OF h]
  obtain tracks where
    "gst_mixer_list_tracks bare_device 0 example_world = Inr (tracks, example_world)"
    and "g_list_elems tracks = []"
    and "\<forall>l. g_list_elems l = ([] :: GstMixerTrack list) \<longrightarrow> l = tracks"
    by blast
  moreover from this have "tracks = GList_NULL"
    by (cases tracks) simp_all
  ultimately show ?thesis
    using h by simp
qed

text \<open>
  C3. A device without a \<open>get_option\<close> implementation: the call returns NULL, with the
  state as it was. A value token is a string, returned as a pointer to it, and NULL is
  not a pointer to any string.
\<close>

theorem get_option_unimplemented_is_null:
  assumes "get_option (GET_CLASS mixer) = None"
  shows "\<exists>r. gst_mixer_get_option GET_CLASS mixer opts s = Inr (r, s) \<and> r = NULL \<and>
     (\<forall>token. r \<noteq> Ptr token)"
  using assms by (simp add: gst_mixer_get_option_def)

theorem get_option_unimplemented_is_null_witness:
  "get_option (bare_device 0) = None \<and>
   gst_mixer_get_option bare_device 0 source_select example_world = Inr (NULL, example_world) \<and>
   NULL \<noteq> Ptr ''line''"
proof -
  have h: "get_option (bare_device 0) = None"
    using bare_device_nothing [of 0] by (simp add: implements_nothing_def)
  from get_option_unimplemented_is_null [where GET_CLASS = bare_device and mixer = 0
      and opts = source_select and s = example_world, OF h] h
  show ?thesis
    by auto
qed

text \<open>
  C4. For a device that does not implement it, each of \<open>set_volume\<close>, \<open>set_mute\<close>,
  \<open>set_record\<close> and \<open>set_option\<close> returns normally with the state it was called in. The
  state is all there is: with a \<open>world\<close> for it, the trace of emissions and the state of
  the application are both those of before, so nothing was stored and no signal was
  emitted.
\<close>

theorem unimplemented_setters_are_no_ops:
  "(set_volume (GET_CLASS mixer) = None \<longrightarrow>
      gst_mixer_set_volume GET_CLASS mixer track volumes s = Inr s) \<and>
   (set_mute (GET_CLASS mixer) = None \<longrightarrow>
      gst_mixer_set_mute GET_CLASS mixer track mute s = Inr s) \<and>
   (set_record (GET_CLASS mixer) = None \<longrightarrow>
      gst_mixer_set_record GET_CLASS mixer track rec s = Inr s) \<and>
   (set_option (GET_CLASS mixer) = None \<longrightarrow>
      gst_mixer_set_option GET_CLASS mixer opts val s = Inr s)"
  by (simp add: gst_mixer_set_volume_def gst_mixer_set_mute_def gst_mixer_set_record_def
      gst_mixer_set_option_def)

theorem unimplemented_setters_are_no_ops_witness:
  "set_volume (bare_device 0) = None \<and> set_mute (bare_device 0) = None \<and>
   set_record (bare_device 0) = None \<and> set_option (bare_device 0) = None \<and>
   gst_mixer_set_volume bare_device 0 master [80, 90] example_world = Inr example_world \<and>
   gst_mixer_set_mute bare_device 0 master True example_world = Inr example_world \<and>
   gst_mixer_set_record bare_device 0 master True example_world = Inr example_world \<and>
   gst_mixer_set_option bare_device 0 source_select ''mic'' example_world = Inr example_world \<and>
   trace example_world = []"
proof -
  have h: "set_volume (bare_device 0) = None" "set_mute (bare_device 0) = None"
    "set_record (bare_device 0) = None" "set_option (bare_device 0) = None"
    using bare_device_nothing [of 0] by (simp_all add: implements_nothing_def)
  from unimplemented_setters_are_no_ops [where GET_CLASS = bare_device
      and mixer = 0 and track = master and volumes = "[80, 90]" and mute = True and rec = True
      and opts = source_select and val = "''mic''" and s = example_world] h
  show ?thesis
    by (simp add: example_world_def)
qed

text \<open>
  C5. For a device that implements a capability, each of the seven wrappers is the
  call of that implementation on the mixer, on the arguments of the caller and on the
  state of the caller, and its result (a fault included) is the result of the wrapper.
\<close>

theorem implemented_capabilities_pass_through:
  "(list_tracks (GET_CLASS mixer) = Some list_tracks_impl \<longrightarrow>
      gst_mixer_list_tracks GET_CLASS mixer s = list_tracks_impl mixer s) \<and>
   (set_volume (GET_CLASS mixer) = Some set_volume_impl \<longrightarrow>
      gst_mixer_set_volume GET_CLASS mixer track volumes s =
        set_volume_impl mixer track volumes s) \<and>
   (get_volume (GET_CLASS mixer) = Some get_volume_impl \<longrightarrow>
      gst_mixer_get_volume GET_CLASS mixer track volumes s =
        get_volume_impl mixer track volumes s) \<and>
   (set_mute (GET_CLASS mixer) = Some set_mute_impl \<longrightarrow>
      gst_mixer_set_mute GET_CLASS mixer track mute s = set_mute_impl mixer track mute s) \<and>
   (set_record (GET_CLASS mixer) = Some set_record_impl \<longrightarrow>
      gst_mixer_set_record GET_CLASS mixer track rec s = set_record_impl mixer track rec s) \<and>
   (set_option (GET_CLASS mixer) = Some set_option_impl \<longrightarrow>
      gst_mixer_set_option GET_CLASS mixer opts val s = set_option_impl mixer opts val s) \<and>
   (get_option (GET_CLASS mixer) = Some get_option_impl \<longrightarrow>
      gst_mixer_get_option GET_CLASS mixer opts s = get_option_impl mixer opts s)"
  by (simp add: gst_mixer_list_tracks_def gst_mixer_set_volume_def gst_mixer_get_volume_def
      gst_mixer_set_mute_def gst_mixer_set_record_def gst_mixer_set_option_def
      gst_mixer_get_option_def)

theorem implemented_capabilities_pass_through_witness:
  "list_tracks (example_device example_connected 0) \<noteq> None \<and>
   set_volume (example_device example_connected 0) \<noteq> None \<and>
   get_volume (example_device example_connected 0) \<noteq> None \<and>
   set_mute (example_device example_connected 0) \<noteq> None \<and>
   set_record (example_device example_connected 0) \<noteq> None \<and>
   set_option (example_device example_connected 0) \<noteq> None \<and>
   get_option (example_device example_connected 0) \<noteq> None \<and>
   gst_mixer_list_tracks (example_device example_connected) 0 example_world =
     Inr (GList master GList_NULL, example_world) \<and>
   gst_mixer_get_volume (example_device example_connected) 0 master [0, 0] example_world =
     Inr ([50, 50], example_world) \<and>
   gst_mixer_get_option (example_device example_connected) 0 source_select example_world =
     Inr (Ptr ''line'', example_world) \<and>
   gst_mixer_set_volume (example_device example_connected) 0 master [80, 90] example_world =
     gst_mixer_volume_changed example_connected 0 master [80, 90]
       (example_world\<lparr>app := (app example_world)\<lparr>stored_volumes := [80, 90]\<rparr>\<rparr>) \<and>
   gst_mixer_set_mute (example_device example_connected) 0 master True example_world =
     gst_mixer_mute_toggled example_connected 0 master True
       (example_world\<lparr>app := (app example_world)\<lparr>muted := True\<rparr>\<rparr>) \<and>
   gst_mixer_set_record (example_device example_connected) 0 master True example_world =
     gst_mixer_record_toggled example_connected 0 master True
       (example_world\<lparr>app := (app example_world)\<lparr>recording := True\<rparr>\<rparr>) \<and>
   gst_mixer_set_option (example_device example_connected) 0 source_select ''mic'' example_world =
     gst_mixer_option_changed example_connected 0 source_select ''mic''
       (example_world\<lparr>app := (app example_world)\<lparr>selected := ''mic''\<rparr>\<rparr>)"
proof -
  let ?k = "example_device example_connected 0"
  have slots:
    "list_tracks ?k = Some (the (list_tracks ?k))"
    "set_volume ?k = Some (the (set_volume ?k))"
    "get_volume ?k = Some (the (get_volume ?k))"
    "set_mute ?k = Some (the (set_mute ?k))"
    "set_record ?k = Some (the (set_record ?k))"
    "set_option ?k = Some (the (set_option ?k))"
    "get_option ?k = Some (the (get_option ?k))"
    by (simp_all add: example_device_def example_class_def)
  have calls:
    "gst_mixer_list_tracks (example_device example_connected) 0 example_world =
       the (list_tracks ?k) 0 example_world"
    "gst_mixer_set_volume (example_device example_connected) 0 master [80, 90] example_world =
       the (set_volume ?k) 0 master [80, 90] example_world"
    "gst_mixer_set_mute (example_device example_connected) 0 master True example_world =
       the (set_mute ?k) 0 master True example_world"
    "gst_mixer_set_record (example_device example_connected) 0 master True example_world =
       the (set_record ?k) 0 master True example_world"
    "gst_mixer_set_option (example_device example_connected) 0 source_select ''mic'' example_world =
       the (set_option ?k) 0 source_select ''mic'' example_world"
    "gst_mixer_get_option (example_device example_connected) 0 source_select example_world =
       the (get_option ?k) 0 source_select example_world"
    using implemented_capabilities_pass_through [where GET_CLASS = "example_device example_connected"
      and mixer = 0 and s = example_world and track = master and opts = source_select
      and volumes = "[80, 90]" and mute = True and rec = True and val = "''mic''"
      and list_tracks_impl = "the (list_tracks ?k)" and set_volume_impl = "the (set_volume ?k)"
      and get_volume_impl = "the (get_volume ?k)" and set_mute_impl = "the (set_mute ?k)"
      and set_record_impl = "the (set_record ?k)" and set_option_impl = "the (set_option ?k)"
      and get_option_impl = "the (get_option ?k)"] slots
    by simp_all
  have get: "gst_mixer_get_volume (example_device example_connected) 0 master [0, 0] example_world =
       the (get_volume ?k) 0 master [0, 0] example_world"
    using implemented_capabilities_pass_through [where GET_CLASS = "example_device example_connected"
      and mixer = 0 and s = example_world and track = master and volumes = "[0, 0]"
      and get_volume_impl = "the (get_volume ?k)"] slots
    by simp
  show ?thesis
    unfolding calls get
    by (simp add: example_device_def example_class_def example_world_def)
qed

text \<open>A set call on a device that implements nothing, and a sequence of them.\<close>

lemma client_call_no_op:
  "implements_nothing (GET_CLASS mixer) \<Longrightarrow> client_call GET_CLASS mixer c s = Inr s"
  by (cases c)
    (simp_all add: implements_nothing_def gst_mixer_set_volume_def gst_mixer_set_mute_def
      gst_mixer_set_record_def gst_mixer_set_option_def)

lemma client_calls_no_op:
  "implements_nothing (GET_CLASS mixer) \<Longrightarrow> client_calls GET_CLASS mixer cs s = Inr s"
  by (induction cs) (simp_all add: client_call_no_op)

text \<open>
  C10. On a device that implements nothing, any sequence of set calls returns and
  leaves the state it started in; the reads that follow give what they give at the
  start: the empty list of tracks, NULL for an option, and zeros in every channel of
  an array that has room for them.
\<close>

theorem reads_unaffected_by_set_calls:
  assumes "implements_nothing (GET_CLASS mixer)"
  shows "\<exists>s'. client_calls GET_CLASS mixer calls s = Inr s' \<and> s' = s \<and>
     gst_mixer_list_tracks GET_CLASS mixer s' = Inr (GList_NULL, s') \<and>
     gst_mixer_get_option GET_CLASS mixer opts s' = Inr (NULL, s') \<and>
     (sint (num_channels track) \<le> int (length volumes) \<longrightarrow>
        (\<exists>volumes'. gst_mixer_get_volume GET_CLASS mixer track volumes s' = Inr (volumes', s') \<and>
           length volumes' = length volumes \<and>
           (\<forall>k<length volumes. int k < sint (num_channels track) \<longrightarrow> volumes' ! k = 0)))"
proof -
  have calls: "client_calls GET_CLASS mixer calls s = Inr s"
    using assms by (rule client_calls_no_op)
  have tracks: "gst_mixer_list_tracks GET_CLASS mixer s = Inr (GList_NULL, s)"
    using assms by (simp add: implements_nothing_def gst_mixer_list_tracks_def)
  have option: "gst_mixer_get_option GET_CLASS mixer opts s = Inr (NULL, s)"
    using assms by (simp add: implements_nothing_def gst_mixer_get_option_def)
  have volume: "\<exists>volumes'. gst_mixer_get_volume GET_CLASS mixer track volumes s = Inr (volumes', s) \<and>
      length volumes' = length volumes \<and>
      (\<forall>k<length volumes. int k < sint (num_channels track) \<longrightarrow> volumes' ! k = 0)"
    if room: "sint (num_channels track) \<le> int (length volumes)"
  proof -
    from loop_stores [of 0 "num_channels track" volumes] room
    obtain vs' where
      r: "gst_mixer_get_volume_loop 0 (num_channels track) volumes = Inr vs'"
      and len: "length vs' = length volumes"
      and el: "\<forall>k<length volumes. vs' ! k =
          (if sint (0 :: gint) \<le> int k \<and> int k < sint (num_channels track) then 0
           else volumes ! k)"
      by auto
    from el have "\<forall>k<length volumes. int k < sint (num_channels track) \<longrightarrow> vs' ! k = 0"
      by simp
    moreover from r assms
    have "gst_mixer_get_volume GET_CLASS mixer track volumes s = Inr (vs', s)"
      by (simp add: implements_nothing_def gst_mixer_get_volume_def)
    ultimately show ?thesis
      using len by blast
  qed
  from calls tracks option volume show ?thesis
    by simp
qed

theorem reads_unaffected_by_set_calls_witness:
  "implements_nothing (bare_device 0) \<and>
   client_calls bare_device 0
     [Set_volume master [80, 90], Set_mute master True, Set_record master True,
      Set_option source_select ''mic''] example_world = Inr example_world \<and>
   gst_mixer_list_tracks bare_device 0 example_world = Inr (GList_NULL, example_world) \<and>
   gst_mixer_get_option bare_device 0 source_select example_world = Inr (NULL, example_world) \<and>
   sint (num_channels master) \<le> int (length [80, 90 :: gint]) \<and>
   (\<exists>volumes'. gst_mixer_get_volume bare_device 0 master [80, 90] example_world =
        Inr (volumes', example_world) \<and>
      length volumes' = 2 \<and> volumes' ! 0 = 0 \<and> volumes' ! 1 = 0)"
proof -
  have h: "implements_nothing (bare_device 0)"
    by (rule bare_device_nothing)
  have room: "sint (num_channels master) \<le> int (length [80, 90 :: gint])"
    by (simp add: master_def)
  have two: "sint (num_channels master) = 2"
    by (simp add: master_def)
  from reads_unaffected_by_set_calls [where GET_CLASS = bare_device and mixer = 0
      and calls = "[Set_volume master [80, 90], Set_mute master True, Set_record master True,
        Set_option source_select ''mic'']"
      and s = example_world and opts = source_select and track = master
      and volumes = "[80, 90]", OF h] room
  obtain volumes' where
    "client_calls bare_device 0
       [Set_volume master [80, 90], Set_mute master True, Set_record master True,
        Set_option source_select ''mic''] example_world = Inr example_world"
    and "gst_mixer_list_tracks bare_device 0 example_world = Inr (GList_NULL, example_world)"
    and "gst_mixer_get_option bare_device 0 source_select example_world = Inr (NULL, example_world)"
    and "gst_mixer_get_volume bare_device 0 master [80, 90] example_world =
        Inr (volumes', example_world)"
    and "length volumes' = length [80, 90 :: gint]"
    and el: "\<forall>k<length [80, 90 :: gint]. int k < sint (num_channels master) \<longrightarrow> volumes' ! k = 0"
    by auto
  moreover from el two have "volumes' ! 0 = 0" "volumes' ! 1 = 0"
    by simp_all
  ultimately show ?thesis
    using h room by simp
qed

subsection \<open>Emissions\<close>


text \<open>A handler that does not return ends the emission, whatever is connected after it.\<close>

lemma run_handlers_aborts:
  "callback h instance args (app w) = Inl e \<Longrightarrow>
   run_handlers (h # hs) instance signal args w = Inl e"
  by simp








text \<open>
  The theorems on the notifications ask that the connected handlers return. With the
  table in which the first observer of the mute signal of mixer 0 ends the process, the
  notification does not return, and neither does the set call of the example device,
  whose implementation makes it.
\<close>

lemma abort_ends_notification:
  "gst_mixer_mute_toggled failing_connected 0 master True example_world = Inl Aborted \<and>
   gst_mixer_set_mute (example_device failing_connected) 0 master True example_world =
     Inl Aborted"
  by (simp add: failing_connected_def aborting_handler_def gst_mixer_mute_toggled_def
      g_signal_emit_def gst_mixer_set_mute_def example_device_def example_class_def)






end
